theory Spec2Isabelle
  imports Complex_Main "HOL-Library.AList" "HOL-Library.Word"
begin

section \<open>State objects and the store\<close>

text \<open>
  Modelled from the spec: the class \<^verbatim>\<open>State\<close> belongs to the helper library \<^verbatim>\<open>modsim.py\<close>,
  which is not among the sources. The spec, section 3: a State is "an ordered, named set
  of real-valued scalars"; section 9: "dynamic, duck-typed state containers (arbitrary
  named fields accessed by attribute)". The notebook builds \<^verbatim>\<open>State(olin=10, wellesley=2)\<close>,
  \<^verbatim>\<open>State(olin=12, wellesley=0, wellesley_empty=0)\<close> and a State with four fields, all from
  integer literals, and notes that \<^verbatim>\<open>bike_to_olin\<close> "only works if we initialize
  \<^verbatim>\<open>wellesley_empty\<close> when we create the \<^verbatim>\<open>State\<close> object": reading a field the State was
  created without is an error.

  The scalars are machine numbers. A State created from integers holds 64-bit signed
  integers, whose arithmetic wraps around: they are \<open>64 word\<close>, read as a signed number by
  \<open>sint\<close>. A State created with a value that is not an integer, such as
  \<^verbatim>\<open>State(olin=0, wellesley=0.5)\<close>, holds 64-bit floating-point numbers. The functions of
  the notebook only compare a field with 0 and add or subtract 1. On floating-point numbers
  the model follows them where this arithmetic is exact, which it is on the multiples of
  one half of magnitude at most \<open>2 ^ 51\<close> (\<open>float_exact\<close>); there a floating-point number
  is the real number it stands for. Where an operand or the result is outside this set the
  assignment ends with the status \<open>Inexact\<close>, writes nothing, and the model follows the run
  no further. States holding values that are not numbers, or integers outside the 64-bit
  range, are not modelled.
\<close>

datatype error = AttributeError string | IndexError

datatype scalar = Int64 "64 word" | Float64 real

definition float_exact :: "real \<Rightarrow> bool" where
  "float_exact x \<longleftrightarrow> of_int \<lfloor>2 * x\<rfloor> = 2 * x \<and> \<bar>x\<bar> \<le> 2 ^ 51"

text \<open>\<^verbatim>\<open>v + k\<close> for an integer literal \<open>k\<close>; \<open>None\<close> outside the exact range.\<close>

fun add_int :: "scalar \<Rightarrow> int \<Rightarrow> scalar option" where
  "add_int (Int64 w) k = Some (Int64 (w + word_of_int k))"
| "add_int (Float64 x) k =
     (if float_exact x \<and> float_exact (x + of_int k) then Some (Float64 (x + of_int k)) else None)"

text \<open>\<^verbatim>\<open>v == 0\<close>.\<close>

fun is_zero :: "scalar \<Rightarrow> bool" where
  "is_zero (Int64 w) \<longleftrightarrow> w = 0"
| "is_zero (Float64 x) \<longleftrightarrow> x = 0"


text \<open>
  The functions of the notebook receive a reference to a State object and assign to its
  attributes (\<^verbatim>\<open>state.olin -= 1\<close>), so the objects live in a store, and a call returns the
  store it leaves behind together with how it ended: normally, with an exception, or at an
  inexact floating-point operation.
\<close>

datatype status = Done | Raised error | Inexact

type_synonym State = "(string \<times> scalar) list"

type_synonym ref = nat

type_synonym heap = "State list"

type_synonym outcome = "status \<times> heap"

definition getattr :: "heap \<Rightarrow> ref \<Rightarrow> string \<Rightarrow> scalar option" where
  "getattr h state field = map_of (h ! state) field"

text \<open>
  \<^verbatim>\<open>state.field += k\<close>: reads the attribute (an \<^verbatim>\<open>AttributeError\<close> when the State was
  created without it, and then nothing is written), adds, and stores the sum in the same
  object.
\<close>

definition aug_assign :: "ref \<Rightarrow> string \<Rightarrow> int \<Rightarrow> heap \<Rightarrow> outcome" where
  "aug_assign state field k h =
     (case getattr h state field of
        None \<Rightarrow> (Raised (AttributeError field), h)
      | Some v \<Rightarrow>
          (case add_int v k of
             None \<Rightarrow> (Inexact, h)
           | Some v' \<Rightarrow> (Done, h[state := AList.update field v' (h ! state)])))"

text \<open>Two statements in sequence: the second runs when the first ended normally.\<close>

definition then_do :: "(heap \<Rightarrow> outcome) \<Rightarrow> (heap \<Rightarrow> outcome) \<Rightarrow> heap \<Rightarrow> outcome" where
  "then_do a b h = (case a h of (Done, h') \<Rightarrow> b h' | (st, h') \<Rightarrow> (st, h'))"

definition pass :: "heap \<Rightarrow> outcome" where
  "pass h = (Done, h)"

section \<open>The bike share functions\<close>

text \<open>
  \<^verbatim>\<open>
  def bike_to_wellesley(state):
      state.olin -= 1
      state.wellesley += 1
  \<close>
  (the version with a parameter and the final one with a docstring have the same body).
\<close>

definition bike_to_wellesley :: "ref \<Rightarrow> heap \<Rightarrow> outcome" where
  "bike_to_wellesley state =
     then_do (aug_assign state ''olin'' (- 1)) (aug_assign state ''wellesley'' 1)"

text \<open>
  The three bodies the chapter gives \<^verbatim>\<open>bike_to_olin\<close>, in order: the documented one
  without a check,
  \<^verbatim>\<open>
      state.wellesley -= 1
      state.olin += 1
  \<close>
  the one that returns early,
  \<^verbatim>\<open>
      if state.wellesley == 0:
          return
      state.wellesley -= 1
      state.olin += 1
  \<close>
  and the one that counts unhappy customers, which is also the final one,
  \<^verbatim>\<open>
      if state.wellesley == 0:
          state.wellesley_empty += 1
          return
      state.wellesley -= 1
      state.olin += 1
  \<close>
\<close>

definition bike_to_olin_unchecked :: "ref \<Rightarrow> heap \<Rightarrow> outcome" where
  "bike_to_olin_unchecked state =
     then_do (aug_assign state ''wellesley'' (- 1)) (aug_assign state ''olin'' 1)"

definition bike_to_olin_guarded :: "ref \<Rightarrow> heap \<Rightarrow> outcome" where
  "bike_to_olin_guarded state h =
     (case getattr h state ''wellesley'' of
        None \<Rightarrow> (Raised (AttributeError ''wellesley''), h)
      | Some w \<Rightarrow>
          if is_zero w then (Done, h)
          else then_do (aug_assign state ''wellesley'' (- 1)) (aug_assign state ''olin'' 1) h)"

definition bike_to_olin :: "ref \<Rightarrow> heap \<Rightarrow> outcome" where
  "bike_to_olin state h =
     (case getattr h state ''wellesley'' of
        None \<Rightarrow> (Raised (AttributeError ''wellesley''), h)
      | Some w \<Rightarrow>
          if is_zero w then aug_assign state ''wellesley_empty'' 1 h
          else then_do (aug_assign state ''wellesley'' (- 1)) (aug_assign state ''olin'' 1) h)"

text \<open>
  \<^verbatim>\<open>
  def step(state, p1, p2):
      if flip(p1):
          bike_to_wellesley(state)
      if flip(p2):
          bike_to_olin(state)
  \<close>
  \<^verbatim>\<open>flip\<close> (of \<^verbatim>\<open>modsim.py\<close>) draws a random number; the two booleans are the outcomes of
  the two draws.
  When the notebook runs \<^verbatim>\<open>step\<close>, the names are bound to the final definitions.
\<close>

definition step :: "ref \<Rightarrow> bool \<Rightarrow> bool \<Rightarrow> heap \<Rightarrow> outcome" where
  "step state flip1 flip2 =
     then_do (if flip1 then bike_to_wellesley state else pass)
             (if flip2 then bike_to_olin state else pass)"

text \<open>
  \<^verbatim>\<open>
  def run_simulation(state, p1, p2, num_steps):
      results = TimeSeries()
      results[0] = state.olin
      for i in range(num_steps):
          step(state, p1, p2)
          results[i+1] = state.olin
      results.plot(label='Olin')
      ...
  \<close>
  The list of flips holds the outcomes of the two draws of each of the \<^verbatim>\<open>num_steps\<close>
  iterations, so its length is \<^verbatim>\<open>num_steps\<close>. The function returns nothing; the model
  returns the store and the series it plots.
\<close>

fun simulation_loop ::
  "ref \<Rightarrow> (bool \<times> bool) list \<Rightarrow> nat \<Rightarrow> heap \<Rightarrow> (nat \<times> scalar) list
     \<Rightarrow> status \<times> heap \<times> (nat \<times> scalar) list" where
  "simulation_loop state [] i h results = (Done, h, results)"
| "simulation_loop state ((flip1, flip2) # flips) i h results =
     (case step state flip1 flip2 h of
        (Done, h') \<Rightarrow>
          (case getattr h' state ''olin'' of
             None \<Rightarrow> (Raised (AttributeError ''olin''), h', results)
           | Some v \<Rightarrow> simulation_loop state flips (Suc i) h' (results @ [(Suc i, v)]))
      | (st, h') \<Rightarrow> (st, h', results))"

definition run_simulation ::
  "ref \<Rightarrow> (bool \<times> bool) list \<Rightarrow> heap \<Rightarrow> status \<times> heap \<times> (nat \<times> scalar) list" where
  "run_simulation state flips h =
     (case getattr h state ''olin'' of
        None \<Rightarrow> (Raised (AttributeError ''olin''), h, [])
      | Some v \<Rightarrow> simulation_loop state flips 0 h [(0, v)])"

text \<open>The store a call leaves behind.\<close>

definition heap_after :: "status \<times> heap \<times> (nat \<times> scalar) list \<Rightarrow> heap" where
  "heap_after r = fst (snd r)"


text \<open>\<^verbatim>\<open>bikeshare = State(olin=10, wellesley=2)\<close>, the only object of its store.\<close>

definition bikeshare :: heap where
  "bikeshare = [[(''olin'', Int64 10), (''wellesley'', Int64 2)]]"

text \<open>
  More stores: \<^verbatim>\<open>State(olin=0, wellesley=12)\<close> alone; the pair
  \<^verbatim>\<open>State(olin=12, wellesley=0, wellesley_empty=0)\<close>, \<^verbatim>\<open>State(olin=2, wellesley=10)\<close>;
  \<^verbatim>\<open>State(olin=0, wellesley=0.5)\<close> and \<^verbatim>\<open>State(olin=0, wellesley=2.0)\<close>, which hold
  floating-point numbers; and \<^verbatim>\<open>State(olin=9223372036854775807, wellesley=1)\<close>, with the
  largest 64-bit integer at Olin.
\<close>

definition empty_olin :: heap where
  "empty_olin = [[(''olin'', Int64 0), (''wellesley'', Int64 12)]]"

definition two_bikeshares :: heap where
  "two_bikeshares =
     [[(''olin'', Int64 12), (''wellesley'', Int64 0), (''wellesley_empty'', Int64 0)],
      [(''olin'', Int64 2), (''wellesley'', Int64 10)]]"

definition half_bike :: heap where
  "half_bike = [[(''olin'', Float64 0), (''wellesley'', Float64 (1 / 2))]]"





text \<open>
  A call is confined to the fields \<open>names\<close> of the object \<open>state\<close> when it leaves the
  number of objects, every other object and every other field of \<open>state\<close> as they were.
\<close>

definition confined :: "ref \<Rightarrow> string set \<Rightarrow> (heap \<Rightarrow> outcome) \<Rightarrow> bool" where
  "confined state names c \<longleftrightarrow>
     (\<forall>h. state < length h \<longrightarrow>
        length (snd (c h)) = length h
      \<and> (\<forall>r. r \<noteq> state \<longrightarrow> snd (c h) ! r = h ! r)
      \<and> (\<forall>f. f \<notin> names \<longrightarrow> getattr (snd (c h)) state f = getattr h state f))"

section \<open>Calibration: the objective of chapter "Optimal Baseball"\<close>

text \<open>
  A \<open>Params\<close> object is a record of named values; the store of these objects is a list, a
  reference is an index into it and a new object takes the next free index.
\<close>

type_synonym 'v Params = "(string \<times> 'v) list"

type_synonym 'v params_heap = "'v Params list"

text \<open>
  Modelled from the spec: \<^verbatim>\<open>Params.set\<close> belongs to the helper library \<^verbatim>\<open>modsim.py\<close>, which
  is not among the sources. The spec, section 3: "calibration routines produce a new parameter
  record with one field overridden rather than mutating the original". The result is the
  reference to the new record.
\<close>

definition params_set :: "ref \<Rightarrow> string \<Rightarrow> 'v \<Rightarrow> 'v params_heap \<Rightarrow> ref \<times> 'v params_heap" where
  "params_set params field v h = (length h, h @ [AList.update field v (h ! params)])"

text \<open>
  \<^verbatim>\<open>
  def range_func(angle, params):
      params = params.set(angle=angle)
      system = make_system(params)
      results, details = run_solve_ivp(system, slope_func,
                                       events=event_func)
      x_dist = results.iloc[-1].x
      print(angle, x_dist)
      return x_dist
  \<close>
  \<^verbatim>\<open>make_system\<close>, \<^verbatim>\<open>slope_func\<close> and \<^verbatim>\<open>event_func\<close> are imported from \<^verbatim>\<open>chap22.py\<close> and
  \<^verbatim>\<open>run_solve_ivp\<close> from \<^verbatim>\<open>modsim.py\<close>; neither file is among the sources. They are
  parameters here: \<open>make_system\<close> reads the record it is given (the spec, section 3:
  Parameters are "read-only input"), \<open>solve\<close> stands for the call of \<^verbatim>\<open>run_solve_ivp\<close> with
  the two imported functions and returns the rows of the results and the details, and \<open>x\<close> reads
  the column \<^verbatim>\<open>x\<close> of a row. \<^verbatim>\<open>results.iloc[-1]\<close> of an empty table is an \<^verbatim>\<open>IndexError\<close>.
  The printed line is left out.
\<close>

definition range_func ::
  "('v Params \<Rightarrow> 'sys) \<Rightarrow> ('sys \<Rightarrow> 'row list \<times> 'details) \<Rightarrow> ('row \<Rightarrow> 'x)
     \<Rightarrow> 'v \<Rightarrow> ref \<Rightarrow> 'v params_heap \<Rightarrow> (error + 'x) \<times> 'v params_heap" where
  "range_func make_system solve x angle params h =
     (let (params', h') = params_set params ''angle'' angle h;
          system = make_system (h' ! params');
          (results, details) = solve system
      in (if results = [] then Inl IndexError else Inr (x (last results)), h'))"

text \<open>
  \<^verbatim>\<open>maximize_scalar(range_func, params, bounds=[0, 90])\<close> and the sweep
  \<^verbatim>\<open>for angle in angles: x_dist = range_func(angle, params)\<close> call the objective once per
  trial angle, always with the same \<^verbatim>\<open>params\<close>: the results of the calls in order, and the
  store after the last one.
\<close>

fun evaluations ::
  "('v \<Rightarrow> ref \<Rightarrow> 'v params_heap \<Rightarrow> 'r \<times> 'v params_heap) \<Rightarrow> 'v list \<Rightarrow> ref \<Rightarrow> 'v params_heap
     \<Rightarrow> 'r list \<times> 'v params_heap" where
  "evaluations func [] params h = ([], h)"
| "evaluations func (a # as) params h =
     (let (r, h') = func a params h;
          (rs, h'') = evaluations func as params h'
      in (r # rs, h''))"

text \<open>
  A store with one \<open>Params\<close> object, and stand-ins for the three parameters of
  \<open>range_func\<close>, to run it on a concrete input: the system is the pair of speed and angle,
  the run returns two rows.
\<close>

definition baseball_params :: "real params_heap" where
  "baseball_params = [[(''x'', 0), (''y'', 1), (''angle'', 45), (''speed'', 40)]]"

definition stub_make_system :: "real Params \<Rightarrow> real option \<times> real option" where
  "stub_make_system p = (map_of p ''speed'', map_of p ''angle'')"

fun stub_run_solve_ivp :: "real option \<times> real option \<Rightarrow> (real \<times> real) list \<times> string" where
  "stub_run_solve_ivp (Some speed, Some angle) =
     ([(0, 1), (speed * angle, 0)], ''A termination event occurred.'')"
| "stub_run_solve_ivp other = ([], ''failed'')"

section \<open>Interpolation of measured data\<close>

text \<open>
  Modelled from the spec: \<^verbatim>\<open>interpolate\<close> belongs to \<^verbatim>\<open>modsim.py\<close>, which is not among the
  sources (the notebook calls \<^verbatim>\<open>I = interpolate(data.insulin)\<close> and \<^verbatim>\<open>I(18)\<close>). The spec,
  section 4.5: "given an ordered sequence of (time, value) samples, produce a callable
  mapping an arbitrary query time [...] to an estimated value, using piecewise-linear
  interpolation between consecutive samples by default"; section 7: "Interpolation
  out-of-range query: explicit error unless extrapolation was explicitly requested". Times
  and values are real numbers here, not floating-point numbers.
\<close>

datatype interp_error = OutOfRange

fun interpolate :: "(real \<times> real) list \<Rightarrow> real \<Rightarrow> interp_error + real" where
  "interpolate [] q = Inl OutOfRange"
| "interpolate [(t0, y0)] q = (if q = t0 then Inr y0 else Inl OutOfRange)"
| "interpolate ((t0, y0) # (t1, y1) # rest) q =
     (if q < t0 then Inl OutOfRange
      else if q \<le> t1 then Inr (y0 + (q - t0) * (y1 - y0) / (t1 - t0))
      else interpolate ((t1, y1) # rest) q)"

text \<open>An ordered sequence of samples: the sample times increase.\<close>

definition ordered :: "(real \<times> real) list \<Rightarrow> bool" where
  "ordered series = sorted_wrt (<) (map fst series)"

definition strictly_between :: "real \<Rightarrow> real \<Rightarrow> real \<Rightarrow> bool" where
  "strictly_between v a b \<longleftrightarrow> (a < v \<and> v < b) \<or> (b < v \<and> v < a)"

text \<open>Three samples, the first two with the same value.\<close>

definition flat_series :: "(real \<times> real) list" where
  "flat_series = [(0, 5), (1, 5), (2, 7)]"

section \<open>The falling penny\<close>

text \<open>
  \<^verbatim>\<open>
  init = State(y=381, v=0)
  system = System(init=init, g=9.8, t_end=10)
  \<close>
  The state of the penny is the pair of \<^verbatim>\<open>y\<close> and \<^verbatim>\<open>v\<close>, in this order. A \<open>System\<close> holds
  the initial state and the end time; the penny's system adds \<^verbatim>\<open>g\<close>.
\<close>

record 'st System =
  init :: 'st
  t_end :: real

record penny_system = "(real \<times> real) System" +
  g :: real

definition penny :: penny_system where
  "penny = \<lparr>init = (381, 0), t_end = 10, g = 98 / 10\<rparr>"

text \<open>
  \<^verbatim>\<open>
  def slope_func(t, state, system):
      y, v = state
      dydt = v
      dvdt = -system.g
      return dydt, dvdt

  def event_func(t, state, system):
      y, v = state
      return y
  \<close>
\<close>

definition slope_func :: "real \<Rightarrow> real \<times> real \<Rightarrow> 'a penny_system_scheme \<Rightarrow> real \<times> real" where
  "slope_func t state system =
     (let (y, v) = state;
          dydt = v;
          dvdt = - g system
      in (dydt, dvdt))"

definition event_func :: "real \<Rightarrow> real \<times> real \<Rightarrow> 'a penny_system_scheme \<Rightarrow> real" where
  "event_func t state system = (let (y, v) = state in y)"

section \<open>Assignments and the store\<close>

lemma aug_assign_length: "length (snd (aug_assign state field k h)) = length h"
  by (simp add: aug_assign_def split: option.splits)

lemma aug_assign_getattr:
  "state < length h \<Longrightarrow>
   getattr (snd (aug_assign state field k h)) r f =
     (if r = state \<and> f = field
      then (case getattr h state field of
              None \<Rightarrow> None
            | Some v \<Rightarrow> (case add_int v k of None \<Rightarrow> Some v | Some v' \<Rightarrow> Some v'))
      else getattr h r f)"
  by (cases "r = state")
     (auto simp: aug_assign_def getattr_def update_conv' split: option.splits)

lemma aug_assign_other:
  "r \<noteq> state \<Longrightarrow> snd (aug_assign state field k h) ! r = h ! r"
  by (simp add: aug_assign_def split: option.splits)

lemma aug_assign_status:
  "fst (aug_assign state field k h) =
     (case getattr h state field of
        None \<Rightarrow> Raised (AttributeError field)
      | Some v \<Rightarrow> (case add_int v k of None \<Rightarrow> Inexact | Some v' \<Rightarrow> Done))"
  by (simp add: aug_assign_def split: option.splits)

lemma then_do_snd:
  "snd (then_do a b h) = (if fst (a h) = Done then snd (b (snd (a h))) else snd (a h))"
  by (auto simp: then_do_def split: prod.splits status.splits)

lemma then_do_fst:
  "fst (then_do a b h) = (if fst (a h) = Done then fst (b (snd (a h))) else fst (a h))"
  by (auto simp: then_do_def split: prod.splits status.splits)

lemma pass_simps: "fst (pass h) = Done" "snd (pass h) = h"
  by (simp_all add: pass_def)

lemmas store_simps =
  then_do_snd then_do_fst aug_assign_getattr aug_assign_status aug_assign_length pass_simps






subsection \<open>Which part of the store a call writes\<close>

lemma confined_aug_assign:
  "field \<in> names \<Longrightarrow> confined state names (aug_assign state field k)"
  by (auto simp: confined_def aug_assign_length aug_assign_other aug_assign_getattr)

lemma confined_then_do:
  "confined state names a \<Longrightarrow> confined state names b \<Longrightarrow> confined state names (then_do a b)"
  by (simp add: confined_def then_do_snd)

lemma confined_pass: "confined state names pass"
  by (simp add: confined_def pass_def)

lemma confined_bike_to_wellesley:
  "confined state {''olin'', ''wellesley'', ''wellesley_empty''} (bike_to_wellesley state)"
  by (simp add: bike_to_wellesley_def confined_then_do confined_aug_assign)

lemma confined_bike_to_olin:
  "confined state {''olin'', ''wellesley'', ''wellesley_empty''} (bike_to_olin state)"
proof -
  let ?F = "{''olin'', ''wellesley'', ''wellesley_empty''}"
  have move: "confined state ?F
      (then_do (aug_assign state ''wellesley'' (- 1)) (aug_assign state ''olin'' 1))"
    by (simp add: confined_then_do confined_aug_assign)
  have count: "confined state ?F (aug_assign state ''wellesley_empty'' 1)"
    by (simp add: confined_aug_assign)
  show ?thesis
    unfolding confined_def
  proof (intro allI impI)
    fix h :: heap
    assume len: "state < length h"
    show "length (snd (bike_to_olin state h)) = length h
        \<and> (\<forall>r. r \<noteq> state \<longrightarrow> snd (bike_to_olin state h) ! r = h ! r)
        \<and> (\<forall>f. f \<notin> ?F \<longrightarrow> getattr (snd (bike_to_olin state h)) state f = getattr h state f)"
    proof (cases "getattr h state ''wellesley''")
      case None
      then show ?thesis by (simp add: bike_to_olin_def)
    next
      case (Some w)
      show ?thesis
      proof (cases "is_zero w")
        case True
        then show ?thesis
          using count len Some unfolding confined_def bike_to_olin_def by simp
      next
        case False
        then show ?thesis
          using move len Some unfolding confined_def bike_to_olin_def by simp
      qed
    qed
  qed
qed

lemma confined_step:
  "confined state {''olin'', ''wellesley'', ''wellesley_empty''} (step state flip1 flip2)"
  by (simp add: step_def confined_then_do confined_bike_to_wellesley confined_bike_to_olin
      confined_pass)

lemma step_frame:
  "state < length h \<Longrightarrow>
   length (snd (step state flip1 flip2 h)) = length h
   \<and> (\<forall>r. r \<noteq> state \<longrightarrow> snd (step state flip1 flip2 h) ! r = h ! r)
   \<and> (\<forall>f. f \<notin> {''olin'', ''wellesley'', ''wellesley_empty''} \<longrightarrow>
         getattr (snd (step state flip1 flip2 h)) state f = getattr h state f)"
  using confined_step [of state flip1 flip2] unfolding confined_def by blast

lemma simulation_loop_frame:
  "state < length h \<Longrightarrow>
   length (heap_after (simulation_loop state flips i h results)) = length h
   \<and> (\<forall>r. r \<noteq> state \<longrightarrow> heap_after (simulation_loop state flips i h results) ! r = h ! r)
   \<and> (\<forall>f. f \<notin> {''olin'', ''wellesley'', ''wellesley_empty''} \<longrightarrow>
         getattr (heap_after (simulation_loop state flips i h results)) state f
           = getattr h state f)"
proof (induction flips arbitrary: i h results)
  case Nil
  then show ?case by (simp add: heap_after_def)
next
  case (Cons fl flips)
  obtain flip1 flip2 where fl: "fl = (flip1, flip2)" by (cases fl)
  obtain st h' where st: "step state flip1 flip2 h = (st, h')"
    by (cases "step state flip1 flip2 h")
  have one: "length h' = length h \<and> (\<forall>r. r \<noteq> state \<longrightarrow> h' ! r = h ! r)
      \<and> (\<forall>f. f \<notin> {''olin'', ''wellesley'', ''wellesley_empty''} \<longrightarrow>
            getattr h' state f = getattr h state f)"
    using step_frame [OF Cons.prems, of flip1 flip2] st by simp
  then have len: "state < length h'" using Cons.prems by simp
  show ?case
    using Cons.IH [OF len] one
    by (simp add: fl st heap_after_def split: option.splits status.splits)
qed

lemma simulation_loop_heap:
  "heap_after (simulation_loop state flips i h results)
     = heap_after (simulation_loop state flips j h results')"
proof (induction flips arbitrary: i j h results results')
  case Nil
  then show ?case by (simp add: heap_after_def)
next
  case (Cons fl flips)
  obtain flip1 flip2 where fl: "fl = (flip1, flip2)" by (cases fl)
  show ?case
    using Cons.IH
    by (auto simp: fl heap_after_def split: prod.splits option.splits status.splits)
qed

subsection \<open>What a step leaves in the object\<close>

lemma bike_to_wellesley_int:
  assumes "state < length h"
    and "getattr h state ''olin'' = Some (Int64 a)"
    and "getattr h state ''wellesley'' = Some (Int64 b)"
  shows "fst (bike_to_wellesley state h) = Done"
    and "getattr (snd (bike_to_wellesley state h)) state ''olin'' = Some (Int64 (a - 1))"
    and "getattr (snd (bike_to_wellesley state h)) state ''wellesley'' = Some (Int64 (b + 1))"
  using assms by (simp_all add: bike_to_wellesley_def store_simps)

lemma bike_to_olin_int:
  assumes "state < length h"
    and "getattr h state ''olin'' = Some (Int64 a)"
    and "getattr h state ''wellesley'' = Some (Int64 b)"
  shows "getattr (snd (bike_to_olin state h)) state ''olin''
           = Some (Int64 (if b = 0 then a else a + 1))"
    and "getattr (snd (bike_to_olin state h)) state ''wellesley''
           = Some (Int64 (if b = 0 then b else b - 1))"
    and "b \<noteq> 0 \<Longrightarrow> fst (bike_to_olin state h) = Done"
  using assms by (simp_all add: bike_to_olin_def store_simps)

lemma step_int:
  "state < length h \<Longrightarrow>
   getattr h state ''olin'' = Some (Int64 a) \<Longrightarrow>
   getattr h state ''wellesley'' = Some (Int64 b) \<Longrightarrow>
   getattr (snd (step state flip1 flip2 h)) state ''olin''
      = Some (Int64 ((if flip1 then a - 1 else a)
           + (if flip2 \<and> (if flip1 then b + 1 else b) \<noteq> 0 then 1 else 0)))
   \<and> getattr (snd (step state flip1 flip2 h)) state ''wellesley''
      = Some (Int64 ((if flip1 then b + 1 else b)
           - (if flip2 \<and> (if flip1 then b + 1 else b) \<noteq> 0 then 1 else 0)))"
  by (cases flip1; cases flip2)
     (simp_all add: step_def bike_to_wellesley_def bike_to_olin_def store_simps)

lemma run_simulation_nil: "heap_after (run_simulation state [] h) = h"
  by (simp add: run_simulation_def heap_after_def split: option.splits)

lemma run_simulation_cons:
  assumes "state < length h"
    and "getattr h state ''olin'' = Some (Int64 a)"
    and "getattr h state ''wellesley'' = Some (Int64 b)"
  shows "heap_after (run_simulation state ((flip1, flip2) # flips) h) =
           (if fst (step state flip1 flip2 h) = Done
            then heap_after (run_simulation state flips (snd (step state flip1 flip2 h)))
            else snd (step state flip1 flip2 h))"
proof -
  obtain st h' where st: "step state flip1 flip2 h = (st, h')"
    by (cases "step state flip1 flip2 h")
  obtain v where v: "getattr h' state ''olin'' = Some v"
    using step_int [OF assms, of flip1 flip2] st by simp
  show ?thesis
  proof (cases "st = Done")
    case True
    have "heap_after (simulation_loop state flips (Suc 0) h' ([(0, Int64 a)] @ [(Suc 0, v)]))
        = heap_after (simulation_loop state flips 0 h' [(0, v)])"
      by (rule simulation_loop_heap)
    then show ?thesis
      using True st v assms(2) by (simp add: run_simulation_def)
  next
    case False
    then show ?thesis
      using st assms(2)
      by (cases st) (simp_all add: run_simulation_def heap_after_def)
  qed
qed

lemma run_simulation_frame:
  assumes "state < length h"
  shows "length (heap_after (run_simulation state flips h)) = length h
       \<and> (\<forall>r. r \<noteq> state \<longrightarrow> heap_after (run_simulation state flips h) ! r = h ! r)
       \<and> (\<forall>f. f \<notin> {''olin'', ''wellesley'', ''wellesley_empty''} \<longrightarrow>
             getattr (heap_after (run_simulation state flips h)) state f = getattr h state f)"
proof (cases "getattr h state ''olin''")
  case None
  then show ?thesis by (simp add: run_simulation_def heap_after_def)
next
  case (Some v)
  then show ?thesis
    using simulation_loop_frame [OF assms, of flips 0 "[(0, v)]"]
    by (simp add: run_simulation_def)
qed

subsection \<open>The number of bikes\<close>












subsection \<open>Bikes at Wellesley\<close>







section \<open>The falling penny at the start\<close>

lemma penny_at_start:
  "slope_func 0 (init penny) penny = (0, - (98 / 10))"
  "event_func 0 (init penny) penny = 381"
  by (simp_all add: slope_func_def event_func_def penny_def)

section \<open>The claims about the bike share model\<close>

text \<open>
  C3, as the code has it. The claim says that a simulation step produces a new State and
  leaves every field of the caller's State object unchanged. The code does the opposite by
  design: \<^verbatim>\<open>step\<close> and \<^verbatim>\<open>run_simulation\<close> return no State, they assign to the attributes of
  the object they are given. On an object whose \<^verbatim>\<open>olin\<close> and \<^verbatim>\<open>wellesley\<close> are the 64-bit
  integers \<open>a\<close> and \<open>b\<close>, whatever the two flips, \<^verbatim>\<open>step\<close> leaves in that same object
  \<^verbatim>\<open>olin\<close> = \<open>a\<close>, less one if the first flip succeeds, plus one if the second flip succeeds
  and Wellesley then has a bike, and \<^verbatim>\<open>wellesley\<close> = \<open>b\<close>, plus one if the first flip
  succeeds, less one if the second flip succeeds and Wellesley then has a bike (Wellesley
  then holds \<open>b + 1\<close> after a successful first flip and \<open>b\<close> otherwise; the arithmetic is
  that of 64-bit integers). \<^verbatim>\<open>run_simulation\<close> with no step leaves the store as it is; with
  a first step and further ones it leaves what \<^verbatim>\<open>run_simulation\<close> with the further steps
  leaves from the store after the first step, or the store the first step left if that
  step did not end normally. The update is confined to the fields \<^verbatim>\<open>olin\<close>, \<^verbatim>\<open>wellesley\<close>
  and \<^verbatim>\<open>wellesley_empty\<close> of that one object: its other fields, every other State object
  and the number of objects are as they were, after \<^verbatim>\<open>step\<close> and after \<^verbatim>\<open>run_simulation\<close>
  with any flips.
\<close>

theorem step_updates_caller_state_in_place:
  assumes "state < length h"
    and "getattr h state ''olin'' = Some (Int64 a)"
    and "getattr h state ''wellesley'' = Some (Int64 b)"
  shows "getattr (snd (step state flip1 flip2 h)) state ''olin''
           = Some (Int64 ((if flip1 then a - 1 else a)
                + (if flip2 \<and> (if flip1 then b + 1 else b) \<noteq> 0 then 1 else 0)))
       \<and> getattr (snd (step state flip1 flip2 h)) state ''wellesley''
           = Some (Int64 ((if flip1 then b + 1 else b)
                - (if flip2 \<and> (if flip1 then b + 1 else b) \<noteq> 0 then 1 else 0)))
       \<and> heap_after (run_simulation state [] h) = h
       \<and> heap_after (run_simulation state ((flip1, flip2) # flips) h) =
           (if fst (step state flip1 flip2 h) = Done
            then heap_after (run_simulation state flips (snd (step state flip1 flip2 h)))
            else snd (step state flip1 flip2 h))
       \<and> length (snd (step state flip1 flip2 h)) = length h
       \<and> (\<forall>r. r \<noteq> state \<longrightarrow> snd (step state flip1 flip2 h) ! r = h ! r)
       \<and> (\<forall>f. f \<notin> {''olin'', ''wellesley'', ''wellesley_empty''} \<longrightarrow>
             getattr (snd (step state flip1 flip2 h)) state f = getattr h state f)
       \<and> length (heap_after (run_simulation state flips h)) = length h
       \<and> (\<forall>r. r \<noteq> state \<longrightarrow> heap_after (run_simulation state flips h) ! r = h ! r)
       \<and> (\<forall>f. f \<notin> {''olin'', ''wellesley'', ''wellesley_empty''} \<longrightarrow>
             getattr (heap_after (run_simulation state flips h)) state f = getattr h state f)"
  using step_int [OF assms, of flip1 flip2] run_simulation_nil [of state h]
    run_simulation_cons [OF assms, of flip1 flip2 flips]
    step_frame [OF assms(1), of flip1 flip2] run_simulation_frame [OF assms(1), of flips]
  by simp


lemma two_bikeshares_fields:
  "0 < length two_bikeshares" "getattr two_bikeshares 0 ''olin'' = Some (Int64 12)"
  "getattr two_bikeshares 0 ''wellesley'' = Some (Int64 0)"
  "getattr two_bikeshares 0 ''wellesley_empty'' = Some (Int64 0)"
  "getattr two_bikeshares 0 ''olin_empty'' = None"
  "two_bikeshares ! 1 = [(''olin'', Int64 2), (''wellesley'', Int64 10)]"
  "length two_bikeshares = 2"
  by (simp_all add: two_bikeshares_def getattr_def)

lemmas bike_defs = step_def bike_to_wellesley_def bike_to_olin_def bike_to_olin_guarded_def
  bike_to_olin_unchecked_def then_do_def aug_assign_def pass_def getattr_def
  run_simulation_def heap_after_def

text \<open>
  The theorem at the first object of \<open>two_bikeshares\<close>, for three pairs of flips and a run
  of two steps.
\<close>

theorem step_updates_caller_state_in_place_witness:
  "getattr (snd (step 0 True True two_bikeshares)) 0 ''olin'' = Some (Int64 12)
   \<and> getattr (snd (step 0 True True two_bikeshares)) 0 ''wellesley'' = Some (Int64 0)
   \<and> getattr (snd (step 0 True False two_bikeshares)) 0 ''olin'' = Some (Int64 11)
   \<and> getattr (snd (step 0 False True two_bikeshares)) 0 ''olin'' = Some (Int64 12)
   \<and> getattr (snd (step 0 False True two_bikeshares)) 0 ''wellesley_empty'' = Some (Int64 1)
   \<and> heap_after (run_simulation 0 [(True, False), (True, True)] two_bikeshares)
       = [[(''olin'', Int64 11), (''wellesley'', Int64 1), (''wellesley_empty'', Int64 0)],
          [(''olin'', Int64 2), (''wellesley'', Int64 10)]]
   \<and> snd (step 0 True True two_bikeshares) ! 1 = [(''olin'', Int64 2), (''wellesley'', Int64 10)]
   \<and> getattr (snd (step 0 True True two_bikeshares)) 0 ''olin_empty'' = None"
proof -
  have run: "heap_after (run_simulation 0 [(True, False), (True, True)] two_bikeshares)
       = [[(''olin'', Int64 11), (''wellesley'', Int64 1), (''wellesley_empty'', Int64 0)],
          [(''olin'', Int64 2), (''wellesley'', Int64 10)]]"
    by (simp add: bike_defs two_bikeshares_def)
  have empty: "getattr (snd (step 0 False True two_bikeshares)) 0 ''wellesley_empty''
      = Some (Int64 1)"
    by (simp add: bike_defs two_bikeshares_def)
  show ?thesis
    using step_updates_caller_state_in_place [OF two_bikeshares_fields(1-3), of True True "[]"]
      step_updates_caller_state_in_place [OF two_bikeshares_fields(1-3), of True False "[(True, True)]"]
      step_updates_caller_state_in_place [OF two_bikeshares_fields(1-3), of False True "[]"]
      two_bikeshares_fields run empty
    by simp
qed

text \<open>
  The claim C3 as stated fails: \<^verbatim>\<open>bikeshare\<close> has 10 bikes at Olin, and after one step
  whose first flip succeeds, alone or as a run of one step, the same object has 9.
\<close>

theorem caller_state_unchanged_counterexample:
  "getattr bikeshare 0 ''olin'' = Some (Int64 10)
   \<and> getattr (heap_after (run_simulation 0 [(True, False)] bikeshare)) 0 ''olin'' = Some (Int64 9)
   \<and> getattr (snd (step 0 True False bikeshare)) 0 ''olin'' = Some (Int64 9)"
  by (simp add: bike_defs bikeshare_def)








text \<open>
  C10: the final \<^verbatim>\<open>bike_to_wellesley\<close> has no check. On every State whose two counts are
  64-bit integers it returns normally with \<^verbatim>\<open>olin\<close> one less and \<^verbatim>\<open>wellesley\<close> one more (in
  64-bit arithmetic), and so it does on floating-point counts where the arithmetic is
  exact; from \<^verbatim>\<open>olin = 0\<close> one call gives \<^verbatim>\<open>olin = -1\<close>.
\<close>

theorem bike_to_wellesley_unconditional:
  assumes "state < length h"
  shows "(\<forall>a b. getattr h state ''olin'' = Some (Int64 a)
              \<and> getattr h state ''wellesley'' = Some (Int64 b) \<longrightarrow>
            fst (bike_to_wellesley state h) = Done
          \<and> getattr (snd (bike_to_wellesley state h)) state ''olin'' = Some (Int64 (a - 1))
          \<and> getattr (snd (bike_to_wellesley state h)) state ''wellesley'' = Some (Int64 (b + 1)))
       \<and> (\<forall>x y. getattr h state ''olin'' = Some (Float64 x)
              \<and> getattr h state ''wellesley'' = Some (Float64 y)
              \<and> float_exact x \<and> float_exact (x - 1) \<and> float_exact y \<and> float_exact (y + 1) \<longrightarrow>
            fst (bike_to_wellesley state h) = Done
          \<and> getattr (snd (bike_to_wellesley state h)) state ''olin'' = Some (Float64 (x - 1))
          \<and> getattr (snd (bike_to_wellesley state h)) state ''wellesley''
              = Some (Float64 (y + 1)))
       \<and> (\<forall>b. getattr h state ''olin'' = Some (Int64 0)
              \<and> getattr h state ''wellesley'' = Some (Int64 b) \<longrightarrow>
            getattr (snd (bike_to_wellesley state h)) state ''olin'' = Some (Int64 (- 1)))
       \<and> sint (- 1 :: 64 word) = - 1"
  using assms by (simp add: bike_to_wellesley_def store_simps)

text \<open>
  The theorem at \<^verbatim>\<open>State(olin=0, wellesley=12)\<close> and at \<^verbatim>\<open>State(olin=0, wellesley=0.5)\<close>.
\<close>

theorem bike_to_wellesley_unconditional_witness:
  "getattr empty_olin 0 ''olin'' = Some (Int64 0)
   \<and> fst (bike_to_wellesley 0 empty_olin) = Done
   \<and> getattr (snd (bike_to_wellesley 0 empty_olin)) 0 ''olin'' = Some (Int64 (- 1))
   \<and> getattr (snd (bike_to_wellesley 0 empty_olin)) 0 ''wellesley'' = Some (Int64 (12 + 1))
   \<and> sint (- 1 :: 64 word) = - 1
   \<and> getattr (snd (bike_to_wellesley 0 half_bike)) 0 ''olin'' = Some (Float64 (0 - 1))
   \<and> getattr (snd (bike_to_wellesley 0 half_bike)) 0 ''wellesley'' = Some (Float64 (1 / 2 + 1))"
proof -
  note main = bike_to_wellesley_unconditional
  have len: "0 < length empty_olin" "0 < length half_bike"
    by (simp_all add: empty_olin_def half_bike_def)
  have o: "getattr empty_olin 0 ''olin'' = Some (Int64 0)"
    "getattr empty_olin 0 ''wellesley'' = Some (Int64 12)"
    by (simp_all add: empty_olin_def getattr_def)
  have f: "getattr half_bike 0 ''olin'' = Some (Float64 0)"
    "getattr half_bike 0 ''wellesley'' = Some (Float64 (1 / 2))"
    "float_exact 0" "float_exact (0 - 1)" "float_exact (1 / 2)" "float_exact (1 / 2 + 1)"
    by (simp_all add: half_bike_def getattr_def float_exact_def)
  have ints: "fst (bike_to_wellesley 0 empty_olin) = Done
      \<and> getattr (snd (bike_to_wellesley 0 empty_olin)) 0 ''olin'' = Some (Int64 (- 1))
      \<and> getattr (snd (bike_to_wellesley 0 empty_olin)) 0 ''wellesley'' = Some (Int64 (12 + 1))"
    using main [OF len(1)] o by blast
  have floats: "getattr (snd (bike_to_wellesley 0 half_bike)) 0 ''olin'' = Some (Float64 (0 - 1))
      \<and> getattr (snd (bike_to_wellesley 0 half_bike)) 0 ''wellesley''
          = Some (Float64 (1 / 2 + 1))"
    using main [OF len(2)] f by blast
  have "sint (- 1 :: 64 word) = - 1" by simp
  then show ?thesis using o(1) ints floats by blast
qed

section \<open>Calibration runs and the parameters\<close>

lemma range_func_heap:
  "snd (range_func ms rs x a params h) = h @ [AList.update ''angle'' a (h ! params)]"
  by (simp add: range_func_def params_set_def split: prod.splits)

lemma range_func_value:
  "params < length h \<Longrightarrow>
   fst (range_func ms rs x a params (h @ later)) = fst (range_func ms rs x a params h)"
  by (simp add: range_func_def params_set_def nth_append split: prod.splits)

lemma evaluations_run:
  "params < length h \<Longrightarrow>
   evaluations (range_func ms rs x) as params (h @ later) =
     (map (\<lambda>a. fst (range_func ms rs x a params h)) as,
      h @ later @ map (\<lambda>a. AList.update ''angle'' a (h ! params)) as)"
proof (induction as arbitrary: later)
  case Nil
  then show ?case by simp
next
  case (Cons a as)
  have first: "range_func ms rs x a params (h @ later) =
      (fst (range_func ms rs x a params h),
       h @ (later @ [AList.update ''angle'' a (h ! params)]))"
    using range_func_value [OF Cons.prems, of ms rs x a later]
      range_func_heap [of ms rs x a params "h @ later"] Cons.prems
    by (simp add: prod_eq_iff nth_append)
  show ?case
    using Cons.IH [OF Cons.prems, of "later @ [AList.update ''angle'' a (h ! params)]"]
    by (simp add: first)
qed

text \<open>
  C4: \<open>N\<close> evaluations of \<open>range_func\<close> with the same \<open>params\<close>, at any trial angles. After
  all of them the original record is what it was, and so is every record that existed
  before; each evaluation has added exactly one fresh record, the original with \<^verbatim>\<open>angle\<close>
  overridden; and each evaluation returns what a single evaluation on the original store
  returns, so no evaluation sees an effect of the ones before it.
\<close>

theorem calibration_leaves_params_unmutated:
  assumes "params < length h"
  shows "snd (evaluations (range_func ms rs x) as params h) ! params = h ! params
       \<and> take (length h) (snd (evaluations (range_func ms rs x) as params h)) = h
       \<and> length (snd (evaluations (range_func ms rs x) as params h)) = length h + length as
       \<and> (\<forall>k. k < length as \<longrightarrow>
             snd (evaluations (range_func ms rs x) as params h) ! (length h + k)
               = AList.update ''angle'' (as ! k) (h ! params))
       \<and> fst (evaluations (range_func ms rs x) as params h)
           = map (\<lambda>a. fst (range_func ms rs x a params h)) as"
  using evaluations_run [OF assms, of ms rs x as "[]"] assms
  by (simp add: nth_append)

theorem calibration_leaves_params_unmutated_witness:
  "snd (evaluations (range_func stub_make_system stub_run_solve_ivp fst) [20, 45, 20] 0
          baseball_params) ! 0
     = [(''x'', 0), (''y'', 1), (''angle'', 45), (''speed'', 40)]
   \<and> length (snd (evaluations (range_func stub_make_system stub_run_solve_ivp fst) [20, 45, 20] 0
          baseball_params)) = 4
   \<and> snd (evaluations (range_func stub_make_system stub_run_solve_ivp fst) [20, 45, 20] 0
          baseball_params) ! 3
     = [(''x'', 0), (''y'', 1), (''angle'', 20), (''speed'', 40)]
   \<and> fst (evaluations (range_func stub_make_system stub_run_solve_ivp fst) [20, 45, 20] 0
          baseball_params)
     = [Inr 800, Inr 1800, Inr 800]"
proof -
  have len: "0 < length baseball_params" by (simp add: baseball_params_def)
  have single: "fst (range_func stub_make_system stub_run_solve_ivp fst a 0 baseball_params)
      = Inr (40 * a)" for a :: real
    by (simp add: range_func_def params_set_def baseball_params_def stub_make_system_def)
  have obj: "baseball_params ! 0 = [(''x'', 0), (''y'', 1), (''angle'', 45), (''speed'', 40)]"
    by (simp add: baseball_params_def)
  have n: "length baseball_params = 1" by (simp add: baseball_params_def)
  have k: "(2::nat) < length [20, 45, 20::real]" by simp
  show ?thesis
    using calibration_leaves_params_unmutated
      [OF len, of stub_make_system stub_run_solve_ivp fst "[20, 45, 20]"] single obj n k
    by (auto simp: numeral_3_eq_3)
qed

section \<open>Interpolation at and between the samples\<close>

lemma interpolate_sample:
  "ordered series \<Longrightarrow> (t, y) \<in> set series \<Longrightarrow> interpolate series t = Inr y"
proof (induction series t rule: interpolate.induct)
  case (1 q)
  then show ?case by simp
next
  case (2 t0 y0 q)
  then show ?case by simp
next
  case (3 t0 y0 t1 y1 rest q)
  have lt: "t0 < t1" using "3.prems"(1) by (simp add: ordered_def)
  have tl: "ordered ((t1, y1) # rest)" using "3.prems"(1) by (simp add: ordered_def)
  consider "(q, y) = (t0, y0)" | "(q, y) = (t1, y1)" | "(q, y) \<in> set rest"
    using "3.prems"(2) by auto
  then show ?case
  proof cases
    case 1
    then show ?thesis using lt by simp
  next
    case 2
    then show ?thesis using lt by simp
  next
    case 3
    then have "t1 < q" using "3.prems"(1) by (force simp: ordered_def)
    then show ?thesis using lt "3.IH" tl 3 by simp
  qed
qed

lemma convex_between:
  fixes a b l :: real
  assumes "0 < l" "l < 1"
  shows "min a b \<le> a + l * (b - a) \<and> a + l * (b - a) \<le> max a b
       \<and> (a \<noteq> b \<longrightarrow> strictly_between (a + l * (b - a)) a b)"
proof -
  consider "a < b" | "a = b" | "b < a" by linarith
  then show ?thesis
  proof cases
    case 1
    have p: "0 < l * (b - a)" using assms 1 by simp
    have "l * (b - a) < 1 * (b - a)"
      using assms 1 by (intro mult_strict_right_mono) auto
    then have q: "l * (b - a) < b - a" by simp
    show ?thesis unfolding strictly_between_def using p q 1 by linarith
  next
    case 2
    then show ?thesis by simp
  next
    case 3
    have "0 < l * (a - b)" using assms 3 by simp
    then have p: "l * (b - a) < 0" by (simp add: algebra_simps)
    have "l * (a - b) < 1 * (a - b)"
      using assms 3 by (intro mult_strict_right_mono) auto
    then have q: "b - a < l * (b - a)" by (simp add: algebra_simps)
    show ?thesis unfolding strictly_between_def using p q 3 by linarith
  qed
qed

lemma interpolate_between:
  "ordered series \<Longrightarrow> Suc i < length series \<Longrightarrow>
   fst (series ! i) < q \<Longrightarrow> q < fst (series ! Suc i) \<Longrightarrow>
   \<exists>v. interpolate series q = Inr v
      \<and> min (snd (series ! i)) (snd (series ! Suc i)) \<le> v
      \<and> v \<le> max (snd (series ! i)) (snd (series ! Suc i))
      \<and> (snd (series ! i) \<noteq> snd (series ! Suc i) \<longrightarrow>
           strictly_between v (snd (series ! i)) (snd (series ! Suc i)))"
proof (induction series q arbitrary: i rule: interpolate.induct)
  case (1 q)
  then show ?case by simp
next
  case (2 t0 y0 q)
  then show ?case by simp
next
  case (3 t0 y0 t1 y1 rest q)
  have lt: "t0 < t1" using "3.prems"(1) by (simp add: ordered_def)
  have tl: "ordered ((t1, y1) # rest)" using "3.prems"(1) by (simp add: ordered_def)
  show ?case
  proof (cases i)
    case 0
    then have q: "t0 < q" "q < t1" using "3.prems" by simp_all
    let ?l = "(q - t0) / (t1 - t0)"
    have l: "0 < ?l" "?l < 1" using q lt by simp_all
    have "interpolate ((t0, y0) # (t1, y1) # rest) q = Inr (y0 + ?l * (y1 - y0))"
      using q by simp
    then show ?thesis using convex_between [OF l, of y0 y1] 0 by simp
  next
    case (Suc j)
    have "t1 \<le> fst (((t1, y1) # rest) ! j)"
      using tl "3.prems"(2) Suc
      by (cases j) (auto simp: ordered_def less_imp_le)
    then have q: "t1 < q" using "3.prems"(3) Suc by simp
    have "\<exists>v. interpolate ((t1, y1) # rest) q = Inr v
      \<and> min (snd (((t1, y1) # rest) ! j)) (snd (((t1, y1) # rest) ! Suc j)) \<le> v
      \<and> v \<le> max (snd (((t1, y1) # rest) ! j)) (snd (((t1, y1) # rest) ! Suc j))
      \<and> (snd (((t1, y1) # rest) ! j) \<noteq> snd (((t1, y1) # rest) ! Suc j) \<longrightarrow>
           strictly_between v (snd (((t1, y1) # rest) ! j)) (snd (((t1, y1) # rest) ! Suc j)))"
      using "3.IH" [of j] q lt tl "3.prems" Suc by simp
    then show ?thesis using q lt Suc by simp
  qed
qed

text \<open>
  C5, as piecewise-linear interpolation has it. At every sample time the callable returns
  the sample's value. At a query time strictly between two consecutive sample times it
  returns a value between the two samples' values, bounds included, and strictly between
  them when the two values differ. (When the two values are equal the interpolated value is
  that value, so "strictly between" cannot hold there.)
\<close>

theorem interpolate_round_trip_and_between:
  assumes "ordered series"
  shows "(\<forall>t y. (t, y) \<in> set series \<longrightarrow> interpolate series t = Inr y)
       \<and> (\<forall>i q. Suc i < length series \<and> fst (series ! i) < q \<and> q < fst (series ! Suc i) \<longrightarrow>
            (\<exists>v. interpolate series q = Inr v
               \<and> min (snd (series ! i)) (snd (series ! Suc i)) \<le> v
               \<and> v \<le> max (snd (series ! i)) (snd (series ! Suc i))
               \<and> (snd (series ! i) \<noteq> snd (series ! Suc i) \<longrightarrow>
                    strictly_between v (snd (series ! i)) (snd (series ! Suc i)))))"
  using assms interpolate_sample interpolate_between by blast

theorem interpolate_round_trip_and_between_witness:
  "ordered flat_series
   \<and> interpolate flat_series 0 = Inr 5
   \<and> interpolate flat_series 1 = Inr 5
   \<and> interpolate flat_series 2 = Inr 7
   \<and> interpolate flat_series (3 / 2) = Inr 6
   \<and> strictly_between 6 5 7"
proof -
  have ord: "ordered flat_series" by (simp add: flat_series_def ordered_def)
  have mem: "(0, 5) \<in> set flat_series" "(1, 5) \<in> set flat_series" "(2, 7) \<in> set flat_series"
    by (simp_all add: flat_series_def)
  have seg: "Suc 1 < length flat_series" "fst (flat_series ! 1) < 3 / 2"
    "3 / 2 < fst (flat_series ! Suc 1)" "snd (flat_series ! 1) = 5"
    "snd (flat_series ! Suc 1) = 7"
    by (simp_all add: flat_series_def)
  have val: "interpolate flat_series (3 / 2) = Inr 6" by (simp add: flat_series_def)
  from interpolate_round_trip_and_between [OF ord]
  have rt: "\<forall>t y. (t, y) \<in> set flat_series \<longrightarrow> interpolate flat_series t = Inr y"
    and bt: "\<forall>i q. Suc i < length flat_series \<and> fst (flat_series ! i) < q
              \<and> q < fst (flat_series ! Suc i) \<longrightarrow>
            (\<exists>v. interpolate flat_series q = Inr v
               \<and> min (snd (flat_series ! i)) (snd (flat_series ! Suc i)) \<le> v
               \<and> v \<le> max (snd (flat_series ! i)) (snd (flat_series ! Suc i))
               \<and> (snd (flat_series ! i) \<noteq> snd (flat_series ! Suc i) \<longrightarrow>
                    strictly_between v (snd (flat_series ! i)) (snd (flat_series ! Suc i))))"
    by blast+
  have "interpolate flat_series 0 = Inr 5" "interpolate flat_series 1 = Inr 5"
    "interpolate flat_series 2 = Inr 7"
    using rt mem by blast+
  moreover have "strictly_between 6 5 7"
    using bt [rule_format, of 1 "3 / 2"] seg val by auto
  ultimately show ?thesis using ord val by simp
qed

text \<open>
  C5 as stated fails where two consecutive samples have the same value: between the samples
  \<open>(0, 5)\<close> and \<open>(1, 5)\<close> the value at \<open>1 / 2\<close> is \<open>5\<close>, which is not strictly between
  \<open>5\<close> and \<open>5\<close>.
\<close>

theorem interpolate_strictly_between_counterexample:
  "ordered flat_series
   \<and> flat_series ! 0 = (0, 5) \<and> flat_series ! 1 = (1, 5)
   \<and> interpolate flat_series (1 / 2) = Inr 5
   \<and> \<not> strictly_between 5 5 5"
  by (simp add: flat_series_def ordered_def strictly_between_def)

end
